theory Spec2Isabelle
  imports Main "HOL-Library.Word"
begin

unbundle bit_operations_syntax

section \<open>Data model\<close>

text \<open>
  Modelled from the spec: \<open>models/user.py\<close>, the declaration of the \<open>users\<close> table, is
  not among the sources. The columns are those of the User entity of the specification
  (id, username, firstname, lastname, age, slug), which are also the ones that
  \<open>create_user\<close> in \<open>routers/user.py\<close> writes. As the specification has it, the store
  itself enforces no uniqueness of username or slug; a constraint that the declaration
  might add would show as a store call that raises (see \<open>script\<close> below).
  The primary keys are called \<open>u_id\<close> and \<open>t_id\<close>, since \<open>id\<close> is the identity
  function of HOL. The integers of the rows are \<open>int\<close>, like the Python integers of the
  requests; that SQLite keeps only signed 64-bit integers is modelled where a request binds
  one (\<open>bind_params\<close> below). Strings are texts that the driver can bind.
\<close>

record user =
  u_id :: int
  username :: string
  firstname :: string
  lastname :: string
  age :: int
  slug :: string

text \<open>The \<open>tasks\<close> table of \<open>models/task.py\<close>.\<close>

record task =
  t_id :: int
  title :: string
  content :: string
  priority :: int
  user_id :: int

text \<open>The request bodies of \<open>schemas/user.py\<close> and \<open>schemas/task.py\<close>.\<close>

record CreateUser =
  cu_username :: string
  cu_firstname :: string
  cu_lastname :: string
  cu_age :: int
  cu_slug :: string

record UpdateUser =
  uu_firstname :: string
  uu_lastname :: string
  uu_age :: int

record CreateTask =
  ct_title :: string
  ct_content :: string
  ct_priority :: int
  ct_user_id :: int

record UpdateTask =
  ut_title :: string
  ut_content :: string
  ut_priority :: int

text \<open>The store: both tables, rows in insertion order.\<close>

record db =
  users :: "user list"
  tasks :: "task list"

section \<open>The session\<close>

text \<open>
  An \<open>AsyncSession\<close> is modelled by the committed store, the view of the transaction in
  flight (\<open>pending\<close>), and the behaviour of the store during the request: \<open>script\<close>
  lists, for the store calls still to come, whether each one raises (an exhausted script
  raises nothing). A constraint violation, a lost connection or any other failure of the
  driver is such a raise. \<open>faulted\<close> records that some call of this session has raised;
  no handler reads it.
\<close>

record session =
  committed :: db
  pending :: db
  script :: "bool list"
  faulted :: bool

datatype exn =
  HTTPException nat string
  | SQLAlchemyError
  | MultipleResultsFound
  | OverflowError

text \<open>Whether the next store call raises, and the session after that call.\<close>

definition next_raises :: "session \<Rightarrow> bool" where
  "next_raises s = (case script s of [] \<Rightarrow> False | b # bs \<Rightarrow> b)"

definition after_call :: "session \<Rightarrow> session" where
  "after_call s = s\<lparr>script := tl (script s), faulted := (faulted s \<or> next_raises s)\<rparr>"

text \<open>\<open>await db.execute(select(...))\<close>: the rows of the pending view.\<close>

definition execute_select :: "(db \<Rightarrow> 'a list) \<Rightarrow> session \<Rightarrow> (exn + 'a list) \<times> session" where
  "execute_select q s =
     (if next_raises s then (Inl SQLAlchemyError, after_call s)
      else (Inr (q (pending s)), after_call s))"

text \<open>\<open>await db.execute(insert(...) | update(...) | delete(...))\<close>: a write to the pending view.\<close>

definition execute_write :: "(db \<Rightarrow> db) \<Rightarrow> session \<Rightarrow> (exn + unit) \<times> session" where
  "execute_write f s =
     (if next_raises s then (Inl SQLAlchemyError, after_call s)
      else (Inr (), (after_call s)\<lparr>pending := f (pending s)\<rparr>))"

text \<open>\<open>await db.commit()\<close>: the pending view becomes the committed store.\<close>

definition commit :: "session \<Rightarrow> (exn + unit) \<times> session" where
  "commit s =
     (if next_raises s then (Inl SQLAlchemyError, after_call s)
      else (Inr (), (after_call s)\<lparr>committed := pending s\<rparr>))"

text \<open>\<open>await db.rollback()\<close>: the pending view is dropped.\<close>

definition rollback :: "session \<Rightarrow> session" where
  "rollback s = s\<lparr>pending := committed s\<rparr>"

text \<open>
  The integer columns of SQLite hold signed 64-bit values, and the integers of a request
  body are unbounded Python integers. The driver refuses to bind an integer outside that
  range to a statement: the call raises \<open>OverflowError\<close> and the statement is not run.
  \<open>bind_params ps call\<close> is the store call \<open>call\<close> with the body integers \<open>ps\<close> bound
  to its statement.

  The ids in the path are bound in the same way. They are not checked here: every handler
  that takes one has only \<open>except Exception\<close>, which answers the driver's error and the
  handler's own 404 with the same 500 and leaves the store as it was, and no stored row
  has a key outside the range.
\<close>

definition in_int64 :: "int \<Rightarrow> bool" where
  "in_int64 i = (- (2 ^ 63) \<le> i \<and> i < 2 ^ 63)"

definition bind_params ::
  "int list \<Rightarrow> (session \<Rightarrow> (exn + 'a) \<times> session) \<Rightarrow> session \<Rightarrow> (exn + 'a) \<times> session" where
  "bind_params ps call s =
     (if list_all in_int64 ps then call s
      else (Inl OverflowError, (after_call s)\<lparr>faulted := True\<rparr>))"

text \<open>\<open>result.scalar()\<close>: the first row, or \<open>None\<close>.\<close>

definition scalar :: "'a list \<Rightarrow> 'a option" where
  "scalar rows = (case rows of [] \<Rightarrow> None | r # rs \<Rightarrow> Some r)"

text \<open>\<open>result.scalar_one_or_none()\<close>: raises when more than one row matches.\<close>

definition scalar_one_or_none :: "'a list \<Rightarrow> exn + 'a option" where
  "scalar_one_or_none rows =
     (case rows of
        [] \<Rightarrow> Inr None
      | [r] \<Rightarrow> Inr (Some r)
      | r # r' # rs \<Rightarrow> Inl MultipleResultsFound)"

text \<open>
  \<open>get_async_db\<close> (\<open>backend/db_depends.py\<close>) opens one session per request on the
  store; leaving the \<open>async with\<close> block closes it, and what was not committed is gone.
\<close>

definition get_async_db :: "db \<Rightarrow> bool list \<Rightarrow> session" where
  "get_async_db d sc = \<lparr>committed = d, pending = d, script = sc, faulted = False\<rparr>"

section \<open>Queries and statements\<close>

text \<open>
  The key that SQLite gives a new row of a table with an \<open>Integer\<close> primary key: one more
  than the largest key in the table, 1 in an empty table.
\<close>

fun next_rowid :: "int list \<Rightarrow> int" where
  "next_rowid [] = 1"
| "next_rowid (i # is) = fold max is i + 1"

definition select_user_where_id :: "int \<Rightarrow> db \<Rightarrow> user list" where
  "select_user_where_id uid d = filter (\<lambda>u. u_id u = uid) (users d)"

definition select_task_where_id :: "int \<Rightarrow> db \<Rightarrow> task list" where
  "select_task_where_id tid d = filter (\<lambda>t. t_id t = tid) (tasks d)"

definition select_task_where_user_id :: "int \<Rightarrow> db \<Rightarrow> task list" where
  "select_task_where_user_id uid d = filter (\<lambda>t. user_id t = uid) (tasks d)"

definition insert_user :: "string \<Rightarrow> string \<Rightarrow> string \<Rightarrow> int \<Rightarrow> string \<Rightarrow> db \<Rightarrow> db" where
  "insert_user un fn ln a sl d =
     d\<lparr>users := users d @
        [\<lparr>u_id = next_rowid (map u_id (users d)), username = un, firstname = fn,
          lastname = ln, age = a, slug = sl\<rparr>]\<rparr>"

definition insert_task :: "string \<Rightarrow> string \<Rightarrow> int \<Rightarrow> int \<Rightarrow> db \<Rightarrow> db" where
  "insert_task ti co pr uid d =
     d\<lparr>tasks := tasks d @
        [\<lparr>t_id = next_rowid (map t_id (tasks d)), title = ti, content = co,
          priority = pr, user_id = uid\<rparr>]\<rparr>"

definition update_user_where_id :: "int \<Rightarrow> string \<Rightarrow> string \<Rightarrow> int \<Rightarrow> string \<Rightarrow> db \<Rightarrow> db" where
  "update_user_where_id uid fn ln a sl d =
     d\<lparr>users := map (\<lambda>u. if u_id u = uid
                          then u\<lparr>firstname := fn, lastname := ln, age := a, slug := sl\<rparr>
                          else u) (users d)\<rparr>"

definition update_task_where_id :: "int \<Rightarrow> string \<Rightarrow> string \<Rightarrow> int \<Rightarrow> db \<Rightarrow> db" where
  "update_task_where_id tid ti co pr d =
     d\<lparr>tasks := map (\<lambda>t. if t_id t = tid
                          then t\<lparr>title := ti, content := co, priority := pr\<rparr>
                          else t) (tasks d)\<rparr>"

definition delete_task_where_user_id :: "int \<Rightarrow> db \<Rightarrow> db" where
  "delete_task_where_user_id uid d = d\<lparr>tasks := filter (\<lambda>t. user_id t \<noteq> uid) (tasks d)\<rparr>"

definition delete_user_where_id :: "int \<Rightarrow> db \<Rightarrow> db" where
  "delete_user_where_id uid d = d\<lparr>users := filter (\<lambda>u. u_id u \<noteq> uid) (users d)\<rparr>"

definition delete_task_where_id :: "int \<Rightarrow> db \<Rightarrow> db" where
  "delete_task_where_id tid d = d\<lparr>tasks := filter (\<lambda>t. t_id t \<noteq> tid) (tasks d)\<rparr>"

section \<open>Handlers\<close>

text \<open>
  What a handler returns: the rows it read (\<open>user.__dict__\<close>, the full record), or the
  dictionary \<open>{'status_code': ..., 'transaction': ...}\<close>.
\<close>

datatype payload =
  UserList "user list"
  | UserDict user
  | TaskList "task list"
  | TaskDict task
  | Transaction nat string

type_synonym outcome = "(exn + payload) \<times> session"

text \<open>
  Each handler is a \<open>try\<close> block and its \<open>except\<close> clauses. \<open>f_try\<close> is the block of
  handler \<open>f\<close>; \<open>Inl\<close> is an exception leaving it. \<open>except Exception\<close> catches every
  exception, \<open>HTTPException\<close> included.
\<close>

definition internal_server_error :: exn where
  "internal_server_error = HTTPException 500 ''Internal Server Error''"

subsection \<open>\<open>routers/user.py\<close>\<close>

definition all_users_try :: "session \<Rightarrow> outcome" where
  "all_users_try s =
     (case execute_select users s of
        (Inl e, s1) \<Rightarrow> (Inl e, s1)
      | (Inr rows, s1) \<Rightarrow>
          if rows = [] then (Inl (HTTPException 404 ''There are no users''), s1)
          else (Inr (UserList rows), s1))"

definition all_users :: "session \<Rightarrow> outcome" where
  "all_users s =
     (case all_users_try s of
        (Inl e, s1) \<Rightarrow> (Inl internal_server_error, s1)
      | (Inr r, s1) \<Rightarrow> (Inr r, s1))"

text \<open>
  \<open>slugify\<close> comes from the \<open>python-slugify\<close> package and is a parameter of the two
  handlers that call it.
\<close>

definition create_user_try :: "(string \<Rightarrow> string) \<Rightarrow> CreateUser \<Rightarrow> session \<Rightarrow> outcome" where
  "create_user_try slugify cu s =
     (case bind_params [cu_age cu]
             (execute_write (insert_user (cu_username cu) (cu_firstname cu) (cu_lastname cu)
                               (cu_age cu) (slugify (cu_firstname cu)))) s of
        (Inl e, s1) \<Rightarrow> (Inl e, s1)
      | (Inr _, s1) \<Rightarrow>
          (case commit s1 of
             (Inl e, s2) \<Rightarrow> (Inl e, s2)
           | (Inr _, s2) \<Rightarrow> (Inr (Transaction 201 ''Successful''), s2)))"

definition create_user :: "(string \<Rightarrow> string) \<Rightarrow> CreateUser \<Rightarrow> session \<Rightarrow> outcome" where
  "create_user slugify cu s =
     (case create_user_try slugify cu s of
        (Inl e, s1) \<Rightarrow> (Inl internal_server_error, rollback s1)
      | (Inr r, s1) \<Rightarrow> (Inr r, s1))"

definition user_by_id_try :: "int \<Rightarrow> session \<Rightarrow> outcome" where
  "user_by_id_try uid s =
     (case execute_select (select_user_where_id uid) s of
        (Inl e, s1) \<Rightarrow> (Inl e, s1)
      | (Inr rows, s1) \<Rightarrow>
          (case scalar rows of
             None \<Rightarrow> (Inl (HTTPException 404 ''User not found''), s1)
           | Some u \<Rightarrow> (Inr (UserDict u), s1)))"

definition user_by_id :: "int \<Rightarrow> session \<Rightarrow> outcome" where
  "user_by_id uid s =
     (case user_by_id_try uid s of
        (Inl e, s1) \<Rightarrow> (Inl internal_server_error, s1)
      | (Inr r, s1) \<Rightarrow> (Inr r, s1))"

definition update_user_try :: "(string \<Rightarrow> string) \<Rightarrow> int \<Rightarrow> UpdateUser \<Rightarrow> session \<Rightarrow> outcome" where
  "update_user_try slugify uid uu s =
     (case execute_select (select_user_where_id uid) s of
        (Inl e, s1) \<Rightarrow> (Inl e, s1)
      | (Inr rows, s1) \<Rightarrow>
          (case scalar rows of
             None \<Rightarrow> (Inl (HTTPException 404 ''User not found''), s1)
           | Some u \<Rightarrow>
               (case bind_params [uu_age uu]
                       (execute_write (update_user_where_id uid (uu_firstname uu)
                          (uu_lastname uu) (uu_age uu) (slugify (uu_firstname uu)))) s1 of
                  (Inl e, s2) \<Rightarrow> (Inl e, s2)
                | (Inr _, s2) \<Rightarrow>
                    (case commit s2 of
                       (Inl e, s3) \<Rightarrow> (Inl e, s3)
                     | (Inr _, s3) \<Rightarrow>
                         (Inr (Transaction 200 ''User update is successful''), s3)))))"

definition update_user :: "(string \<Rightarrow> string) \<Rightarrow> int \<Rightarrow> UpdateUser \<Rightarrow> session \<Rightarrow> outcome" where
  "update_user slugify uid uu s =
     (case update_user_try slugify uid uu s of
        (Inl e, s1) \<Rightarrow> (Inl internal_server_error, rollback s1)
      | (Inr r, s1) \<Rightarrow> (Inr r, s1))"

definition delete_user_try :: "int \<Rightarrow> session \<Rightarrow> outcome" where
  "delete_user_try uid s =
     (case execute_select (select_user_where_id uid) s of
        (Inl e, s1) \<Rightarrow> (Inl e, s1)
      | (Inr rows, s1) \<Rightarrow>
          (case scalar rows of
             None \<Rightarrow> (Inl (HTTPException 404 ''User not found''), s1)
           | Some u \<Rightarrow>
               (case execute_write (delete_task_where_user_id uid) s1 of
                  (Inl e, s2) \<Rightarrow> (Inl e, s2)
                | (Inr _, s2) \<Rightarrow>
                    (case execute_write (delete_user_where_id uid) s2 of
                       (Inl e, s3) \<Rightarrow> (Inl e, s3)
                     | (Inr _, s3) \<Rightarrow>
                         (case commit s3 of
                            (Inl e, s4) \<Rightarrow> (Inl e, s4)
                          | (Inr _, s4) \<Rightarrow>
                              (Inr (Transaction 200
                                 ''User and associated tasks delete is successful''), s4))))))"

definition delete_user :: "int \<Rightarrow> session \<Rightarrow> outcome" where
  "delete_user uid s =
     (case delete_user_try uid s of
        (Inl e, s1) \<Rightarrow> (Inl internal_server_error, rollback s1)
      | (Inr r, s1) \<Rightarrow> (Inr r, s1))"

definition tasks_by_user_id_try :: "int \<Rightarrow> session \<Rightarrow> outcome" where
  "tasks_by_user_id_try uid s =
     (case execute_select (select_user_where_id uid) s of
        (Inl e, s1) \<Rightarrow> (Inl e, s1)
      | (Inr rows, s1) \<Rightarrow>
          (case scalar rows of
             None \<Rightarrow> (Inl (HTTPException 404 ''User not found''), s1)
           | Some u \<Rightarrow>
               (case execute_select (select_task_where_user_id uid) s1 of
                  (Inl e, s2) \<Rightarrow> (Inl e, s2)
                | (Inr ts, s2) \<Rightarrow> (Inr (TaskList ts), s2))))"

definition tasks_by_user_id :: "int \<Rightarrow> session \<Rightarrow> outcome" where
  "tasks_by_user_id uid s =
     (case tasks_by_user_id_try uid s of
        (Inl e, s1) \<Rightarrow> (Inl internal_server_error, s1)
      | (Inr r, s1) \<Rightarrow> (Inr r, s1))"

subsection \<open>\<open>routers/task.py\<close>\<close>

definition all_tasks_try :: "session \<Rightarrow> outcome" where
  "all_tasks_try s =
     (case execute_select tasks s of
        (Inl e, s1) \<Rightarrow> (Inl e, s1)
      | (Inr rows, s1) \<Rightarrow>
          if rows = [] then (Inl (HTTPException 404 ''There are no tasks''), s1)
          else (Inr (TaskList rows), s1))"

definition all_tasks :: "session \<Rightarrow> outcome" where
  "all_tasks s =
     (case all_tasks_try s of
        (Inl e, s1) \<Rightarrow> (Inl internal_server_error, s1)
      | (Inr r, s1) \<Rightarrow> (Inr r, s1))"

definition create_task_try :: "CreateTask \<Rightarrow> session \<Rightarrow> outcome" where
  "create_task_try ct s =
     (case bind_params [ct_user_id ct]
             (execute_select (select_user_where_id (ct_user_id ct))) s of
        (Inl e, s1) \<Rightarrow> (Inl e, s1)
      | (Inr rows, s1) \<Rightarrow>
          (case scalar rows of
             None \<Rightarrow> (Inl (HTTPException 404 ''User was not found''), s1)
           | Some u \<Rightarrow>
               (case bind_params [ct_priority ct, ct_user_id ct]
                       (execute_write (insert_task (ct_title ct) (ct_content ct)
                          (ct_priority ct) (ct_user_id ct))) s1 of
                  (Inl e, s2) \<Rightarrow> (Inl e, s2)
                | (Inr _, s2) \<Rightarrow>
                    (case commit s2 of
                       (Inl e, s3) \<Rightarrow> (Inl e, s3)
                     | (Inr _, s3) \<Rightarrow> (Inr (Transaction 201 ''Successful''), s3)))))"

text \<open>The only handler with \<open>except HTTPException as he: raise he\<close> before \<open>except Exception\<close>.\<close>

definition create_task :: "CreateTask \<Rightarrow> session \<Rightarrow> outcome" where
  "create_task ct s =
     (case create_task_try ct s of
        (Inl (HTTPException c d), s1) \<Rightarrow> (Inl (HTTPException c d), s1)
      | (Inl e, s1) \<Rightarrow> (Inl internal_server_error, rollback s1)
      | (Inr r, s1) \<Rightarrow> (Inr r, s1))"

definition task_by_id_try :: "int \<Rightarrow> session \<Rightarrow> outcome" where
  "task_by_id_try tid s =
     (case execute_select (select_task_where_id tid) s of
        (Inl e, s1) \<Rightarrow> (Inl e, s1)
      | (Inr rows, s1) \<Rightarrow>
          (case scalar rows of
             None \<Rightarrow> (Inl (HTTPException 404 ''Task not found''), s1)
           | Some t \<Rightarrow> (Inr (TaskDict t), s1)))"

definition task_by_id :: "int \<Rightarrow> session \<Rightarrow> outcome" where
  "task_by_id tid s =
     (case task_by_id_try tid s of
        (Inl e, s1) \<Rightarrow> (Inl internal_server_error, s1)
      | (Inr r, s1) \<Rightarrow> (Inr r, s1))"

definition update_task_try :: "int \<Rightarrow> UpdateTask \<Rightarrow> session \<Rightarrow> outcome" where
  "update_task_try tid ut s =
     (case execute_select (select_task_where_id tid) s of
        (Inl e, s1) \<Rightarrow> (Inl e, s1)
      | (Inr rows, s1) \<Rightarrow>
          (case scalar rows of
             None \<Rightarrow> (Inl (HTTPException 404 ''Task not found''), s1)
           | Some t \<Rightarrow>
               (case bind_params [ut_priority ut]
                       (execute_write (update_task_where_id tid (ut_title ut) (ut_content ut)
                          (ut_priority ut))) s1 of
                  (Inl e, s2) \<Rightarrow> (Inl e, s2)
                | (Inr _, s2) \<Rightarrow>
                    (case commit s2 of
                       (Inl e, s3) \<Rightarrow> (Inl e, s3)
                     | (Inr _, s3) \<Rightarrow>
                         (Inr (Transaction 200 ''Task update is successful''), s3)))))"

definition update_task :: "int \<Rightarrow> UpdateTask \<Rightarrow> session \<Rightarrow> outcome" where
  "update_task tid ut s =
     (case update_task_try tid ut s of
        (Inl e, s1) \<Rightarrow> (Inl internal_server_error, rollback s1)
      | (Inr r, s1) \<Rightarrow> (Inr r, s1))"

definition delete_task_try :: "int \<Rightarrow> session \<Rightarrow> outcome" where
  "delete_task_try tid s =
     (case execute_select (select_task_where_id tid) s of
        (Inl e, s1) \<Rightarrow> (Inl e, s1)
      | (Inr rows, s1) \<Rightarrow>
          (case scalar rows of
             None \<Rightarrow> (Inl (HTTPException 404 ''Task not found''), s1)
           | Some t \<Rightarrow>
               (case execute_write (delete_task_where_id tid) s1 of
                  (Inl e, s2) \<Rightarrow> (Inl e, s2)
                | (Inr _, s2) \<Rightarrow>
                    (case commit s2 of
                       (Inl e, s3) \<Rightarrow> (Inl e, s3)
                     | (Inr _, s3) \<Rightarrow>
                         (Inr (Transaction 200 ''Task delete is successful''), s3)))))"

definition delete_task :: "int \<Rightarrow> session \<Rightarrow> outcome" where
  "delete_task tid s =
     (case delete_task_try tid s of
        (Inl e, s1) \<Rightarrow> (Inl internal_server_error, rollback s1)
      | (Inr r, s1) \<Rightarrow> (Inr r, s1))"

section \<open>The HTTP surface\<close>

text \<open>
  The routes that \<open>main.py\<close> includes, with the verb of their decorator. No decorator
  gives a \<open>status_code\<close>, so \<open>route_status_code\<close> is \<open>None\<close> on every route.
\<close>

datatype http_method = GET | POST | PUT | DELETE

datatype request =
  Get_user
  | Post_user_create CreateUser
  | Get_user_id int
  | Put_user_update int UpdateUser
  | Delete_user_delete int
  | Get_user_id_tasks int
  | Get_task
  | Post_task_create CreateTask
  | Get_task_id int
  | Put_task_update int UpdateTask
  | Delete_task_delete int

fun route_method :: "request \<Rightarrow> http_method" where
  "route_method Get_user = GET"
| "route_method (Post_user_create cu) = POST"
| "route_method (Get_user_id uid) = GET"
| "route_method (Put_user_update uid uu) = PUT"
| "route_method (Delete_user_delete uid) = DELETE"
| "route_method (Get_user_id_tasks uid) = GET"
| "route_method Get_task = GET"
| "route_method (Post_task_create ct) = POST"
| "route_method (Get_task_id tid) = GET"
| "route_method (Put_task_update tid ut) = PUT"
| "route_method (Delete_task_delete tid) = DELETE"

definition route_status_code :: "request \<Rightarrow> nat option" where
  "route_status_code req = None"

fun dispatch :: "(string \<Rightarrow> string) \<Rightarrow> request \<Rightarrow> session \<Rightarrow> outcome" where
  "dispatch slugify Get_user s = all_users s"
| "dispatch slugify (Post_user_create cu) s = create_user slugify cu s"
| "dispatch slugify (Get_user_id uid) s = user_by_id uid s"
| "dispatch slugify (Put_user_update uid uu) s = update_user slugify uid uu s"
| "dispatch slugify (Delete_user_delete uid) s = delete_user uid s"
| "dispatch slugify (Get_user_id_tasks uid) s = tasks_by_user_id uid s"
| "dispatch slugify Get_task s = all_tasks s"
| "dispatch slugify (Post_task_create ct) s = create_task ct s"
| "dispatch slugify (Get_task_id tid) s = task_by_id tid s"
| "dispatch slugify (Put_task_update tid ut) s = update_task tid ut s"
| "dispatch slugify (Delete_task_delete tid) s = delete_task tid s"

text \<open>
  The status line FastAPI sends: the code of an \<open>HTTPException\<close> that leaves the handler;
  for a handler that returns, the \<open>status_code\<close> of the route, 200 when the route has
  none. The returned dictionary is the body and does not set the status line.
\<close>

fun http_status :: "request \<Rightarrow> exn + payload \<Rightarrow> nat" where
  "http_status req (Inl (HTTPException c d)) = c"
| "http_status req (Inl e) = 500"
| "http_status req (Inr p) = (case route_status_code req of None \<Rightarrow> 200 | Some c \<Rightarrow> c)"

text \<open>One request: a session of its own, the handler, and the store it leaves.\<close>

definition serve :: "(string \<Rightarrow> string) \<Rightarrow> request \<Rightarrow> bool list \<Rightarrow> db \<Rightarrow> (exn + payload) \<times> db" where
  "serve slugify req sc d =
     (case dispatch slugify req (get_async_db d sc) of (r, s') \<Rightarrow> (r, committed s'))"

section \<open>Unique-value generation (\<open>backend/db.py\<close>)\<close>

text \<open>
  \<open>uuid.uuid4().hex\<close> is the 128-bit value of the UUID as 32 lowercase hexadecimal digits,
  most significant first. The draws of the generator are an input: \<open>uuid4 k\<close> is the UUID
  drawn in the iteration whose counter is \<open>k\<close>.
\<close>

definition hex_digit :: "nat \<Rightarrow> char" where
  "hex_digit n = ''0123456789abcdef'' ! (n mod 16)"

definition uuid_hex :: "128 word \<Rightarrow> string" where
  "uuid_hex u = map (\<lambda>i. hex_digit (unat (drop_bit (4 * i) u AND 15))) (rev [0..<32])"

text \<open>\<open>f"{base}-{uuid.uuid4().hex[:8]}" if counter > 1 else base\<close>\<close>

definition candidate :: "(nat \<Rightarrow> 128 word) \<Rightarrow> string \<Rightarrow> nat \<Rightarrow> string" where
  "candidate uuid4 base counter =
     (if counter > 1 then base @ ''-'' @ take 8 (uuid_hex (uuid4 counter)) else base)"

text \<open>\<open>select(User).where(User.slug == v)\<close> and \<open>select(User).where(User.username == v)\<close>.\<close>

definition select_user_where :: "(user \<Rightarrow> string) \<Rightarrow> string \<Rightarrow> db \<Rightarrow> user list" where
  "select_user_where col v d = filter (\<lambda>u. col u = v) (users d)"

text \<open>
  \<open>generate_unique_slug\<close> and \<open>generate_unique_username\<close> are the same loop on two
  columns. The loop has no bound, so it is a partial function: \<open>None\<close> is a run that never
  returns, \<open>Some (Inl e, _)\<close> a run that raises \<open>e\<close>.
\<close>

partial_function (option) generate_unique_loop ::
  "(user \<Rightarrow> string) \<Rightarrow> (nat \<Rightarrow> 128 word) \<Rightarrow> string \<Rightarrow> nat \<Rightarrow> session
     \<Rightarrow> ((exn + string) \<times> session) option" where
  "generate_unique_loop col uuid4 base counter s =
     (case execute_select (select_user_where col (candidate uuid4 base counter)) s of
        (Inl e, s1) \<Rightarrow> Some (Inl e, s1)
      | (Inr rows, s1) \<Rightarrow>
          (case scalar_one_or_none rows of
             Inl e \<Rightarrow> Some (Inl e, s1)
           | Inr None \<Rightarrow> Some (Inr (candidate uuid4 base counter), s1)
           | Inr (Some u) \<Rightarrow> generate_unique_loop col uuid4 base (counter + 1) s1))"

declare generate_unique_loop.simps [code]

definition generate_unique_slug ::
  "(nat \<Rightarrow> 128 word) \<Rightarrow> session \<Rightarrow> string \<Rightarrow> ((exn + string) \<times> session) option" where
  "generate_unique_slug uuid4 session base_slug =
     generate_unique_loop slug uuid4 base_slug 1 session"

definition generate_unique_username ::
  "(nat \<Rightarrow> 128 word) \<Rightarrow> session \<Rightarrow> string \<Rightarrow> ((exn + string) \<times> session) option" where
  "generate_unique_username uuid4 session base_username =
     generate_unique_loop username uuid4 base_username 1 session"

section \<open>Example stores\<close>

definition alice :: user where
  "alice = \<lparr>u_id = 1, username = ''alice'', firstname = ''Alice'', lastname = ''Doe'',
             age = 30, slug = ''alice''\<rparr>"

definition task_T1 :: task where
  "task_T1 = \<lparr>t_id = 1, title = ''T1'', content = ''C1'', priority = 1, user_id = 1\<rparr>"

definition empty_store :: db where
  "empty_store = \<lparr>users = [], tasks = []\<rparr>"

definition alice_store :: db where
  "alice_store = \<lparr>users = [alice], tasks = [task_T1]\<rparr>"

text \<open>A store in which two users have the username \<open>testuser\<close>.\<close>

definition duplicate_store :: db where
  "duplicate_store =
     \<lparr>users = [\<lparr>u_id = 1, username = ''testuser'', firstname = ''Test'', lastname = ''User'',
                 age = 30, slug = ''testuser''\<rparr>,
               \<lparr>u_id = 2, username = ''testuser'', firstname = ''Tess'', lastname = ''User'',
                 age = 31, slug = ''tess''\<rparr>],
      tasks = []\<rparr>"

section \<open>Store calls that do not raise\<close>

lemmas store_defs =
  execute_select_def execute_write_def commit_def next_raises_def after_call_def
  rollback_def scalar_def bind_params_def in_int64_def

lemma after_call_fields [simp]:
  "pending (after_call s) = pending s"
  "committed (after_call s) = committed s"
  "script (after_call s) = tl (script s)"
  "faulted (after_call s) = (faulted s \<or> next_raises s)"
  by (simp_all add: after_call_def)

lemma after_call_empty: "script s = [] \<Longrightarrow> after_call s = s"
  by (cases s) (simp add: after_call_def next_raises_def)

lemma no_fault_next: "True \<notin> set (script s) \<Longrightarrow> \<not> next_raises s"
  by (cases "script s") (auto simp: next_raises_def)

lemma tl_no_fault [simp]: "True \<notin> set xs \<Longrightarrow> True \<notin> set (tl xs)"
  by (cases xs) auto

lemma execute_select_ok:
  "True \<notin> set (script s) \<Longrightarrow> execute_select q s = (Inr (q (pending s)), after_call s)"
  by (simp add: execute_select_def no_fault_next)

lemma execute_write_ok:
  "True \<notin> set (script s) \<Longrightarrow>
   execute_write f s = (Inr (), (after_call s)\<lparr>pending := f (pending s)\<rparr>)"
  by (simp add: execute_write_def no_fault_next)

lemma commit_ok:
  "True \<notin> set (script s) \<Longrightarrow>
   commit s = (Inr (), (after_call s)\<lparr>committed := pending s\<rparr>)"
  by (simp add: commit_def no_fault_next)

lemmas ok_simps = execute_select_ok execute_write_ok commit_ok

lemma next_raises_update [simp]:
  "next_raises (s\<lparr>pending := x\<rparr>) = next_raises s"
  "next_raises (s\<lparr>committed := y\<rparr>) = next_raises s"
  by (simp_all add: next_raises_def)

lemma after_call_update [simp]:
  "after_call (s\<lparr>pending := x\<rparr>) = (after_call s)\<lparr>pending := x\<rparr>"
  "after_call (s\<lparr>committed := y\<rparr>) = (after_call s)\<lparr>committed := y\<rparr>"
  by (simp_all add: after_call_def)

lemmas call_defs = execute_select_def execute_write_def commit_def rollback_def scalar_def
  internal_server_error_def bind_params_def


lemma no_user_rows: "(\<forall>u\<in>set (users d). u_id u \<noteq> uid) \<Longrightarrow> select_user_where_id uid d = []"
  by (simp add: select_user_where_id_def filter_empty_conv)

lemma no_task_rows: "(\<forall>t\<in>set (tasks d). t_id t \<noteq> tid) \<Longrightarrow> select_task_where_id tid d = []"
  by (simp add: select_task_where_id_def filter_empty_conv)

section \<open>Not-found conditions\<close>

text \<open>
  C1. Claimed: looking up a user or a task by an id that no record has fails with 404.
  The code: \<open>user_by_id\<close> and \<open>task_by_id\<close> raise the 404 inside their \<open>try\<close> block, and
  their \<open>except Exception\<close> clause catches it and raises 500 in its place. So, with a store
  that raises nothing, the lookup of a missing id fails with 500
  \<open>Internal Server Error\<close>.
\<close>

theorem missing_id_answers_500:
  assumes "True \<notin> set (script s)"
  shows "((\<forall>u\<in>set (users (pending s)). u_id u \<noteq> uid) \<longrightarrow>
            fst (user_by_id uid s) = Inl (HTTPException 500 ''Internal Server Error'')) \<and>
         ((\<forall>t\<in>set (tasks (pending s)). t_id t \<noteq> tid) \<longrightarrow>
            fst (task_by_id tid s) = Inl (HTTPException 500 ''Internal Server Error''))"
  using assms
  by (simp add: user_by_id_def user_by_id_try_def task_by_id_def task_by_id_try_def
      execute_select_ok no_user_rows no_task_rows scalar_def internal_server_error_def)

theorem missing_id_answers_500_witness:
  "fst (user_by_id 7 (get_async_db alice_store [])) =
     Inl (HTTPException 500 ''Internal Server Error'') \<and>
   fst (task_by_id 7 (get_async_db alice_store [])) =
     Inl (HTTPException 500 ''Internal Server Error'')"
  using missing_id_answers_500 [of "get_async_db alice_store []" 7 7]
  by (simp add: get_async_db_def alice_store_def alice_def task_T1_def)

text \<open>
  C2. Claimed: listing users (tasks) when the store holds none answers 404. The code:
  \<open>all_users\<close> and \<open>all_tasks\<close> raise the 404 inside their \<open>try\<close> block and turn it
  into 500 in \<open>except Exception\<close>. So, with a store that raises nothing, listing an empty
  table fails with 500 \<open>Internal Server Error\<close>.
\<close>

theorem empty_list_answers_500:
  assumes "True \<notin> set (script s)"
  shows "(users (pending s) = [] \<longrightarrow>
            fst (all_users s) = Inl (HTTPException 500 ''Internal Server Error'')) \<and>
         (tasks (pending s) = [] \<longrightarrow>
            fst (all_tasks s) = Inl (HTTPException 500 ''Internal Server Error''))"
  using assms
  by (simp add: all_users_def all_users_try_def all_tasks_def all_tasks_try_def
      execute_select_ok internal_server_error_def)

theorem empty_list_answers_500_witness:
  "fst (all_users (get_async_db empty_store [])) =
     Inl (HTTPException 500 ''Internal Server Error'') \<and>
   fst (all_tasks (get_async_db empty_store [])) =
     Inl (HTTPException 500 ''Internal Server Error'')"
  using empty_list_answers_500 [of "get_async_db empty_store []"]
  by (simp add: get_async_db_def empty_store_def)

text \<open>
  C3. Claimed: every create-task request whose \<open>user_id\<close> no user has fails with 404 and
  leaves no task. The code: the \<open>user_id\<close> of the body is bound to the query that looks
  the user up, and \<open>2 ^ 63\<close> cannot be bound; the \<open>OverflowError\<close> is not an
  \<open>HTTPException\<close>, so \<open>except Exception\<close> answers 500. No user has that id.
\<close>

theorem create_task_overflow_answers_500:
  "select_user_where_id 9223372036854775808 alice_store = [] \<and>
   fst (create_task
          \<lparr>ct_title = ''T2'', ct_content = ''C2'', ct_priority = 2,
            ct_user_id = 9223372036854775808\<rparr>
          (get_async_db alice_store [])) = Inl (HTTPException 500 ''Internal Server Error'')"
  by (simp add: create_task_def create_task_try_def bind_params_def in_int64_def
      internal_server_error_def rollback_def select_user_where_id_def alice_store_def alice_def)

text \<open>
  C3, amended. When no store call raises, creating a task for a \<open>user_id\<close> that no user
  has and that lies in the signed 64-bit range fails with 404 \<open>User was not found\<close>, and
  neither the committed store nor the view of the transaction changes: no task is left
  behind. For a \<open>user_id\<close> outside that range the request fails with 500 and the store is
  left as it was, too.
\<close>

theorem create_task_unknown_user:
  assumes "True \<notin> set (script s)"
    and "\<forall>u\<in>set (users (pending s)). u_id u \<noteq> ct_user_id ct"
  shows "(in_int64 (ct_user_id ct) \<longrightarrow>
            fst (create_task ct s) = Inl (HTTPException 404 ''User was not found'') \<and>
            committed (snd (create_task ct s)) = committed s \<and>
            pending (snd (create_task ct s)) = pending s) \<and>
         (\<not> in_int64 (ct_user_id ct) \<longrightarrow>
            fst (create_task ct s) = Inl (HTTPException 500 ''Internal Server Error'') \<and>
            committed (snd (create_task ct s)) = committed s \<and>
            pending (snd (create_task ct s)) = committed s)"
  using assms
  by (simp add: create_task_def create_task_try_def bind_params_def execute_select_ok
      no_user_rows scalar_def internal_server_error_def rollback_def)

theorem create_task_unknown_user_witness:
  "fst (create_task \<lparr>ct_title = ''T2'', ct_content = ''C2'', ct_priority = 2, ct_user_id = 5\<rparr>
          (get_async_db alice_store [])) = Inl (HTTPException 404 ''User was not found'') \<and>
   committed (snd (create_task
          \<lparr>ct_title = ''T2'', ct_content = ''C2'', ct_priority = 2, ct_user_id = 5\<rparr>
          (get_async_db alice_store []))) = alice_store \<and>
   pending (snd (create_task
          \<lparr>ct_title = ''T2'', ct_content = ''C2'', ct_priority = 2, ct_user_id = 5\<rparr>
          (get_async_db alice_store []))) = alice_store"
  using create_task_unknown_user [of "get_async_db alice_store []"
      "\<lparr>ct_title = ''T2'', ct_content = ''C2'', ct_priority = 2, ct_user_id = 5\<rparr>"]
  by (simp add: get_async_db_def alice_store_def alice_def in_int64_def)

section \<open>Cascading delete\<close>

lemma delete_user_ok:
  assumes "True \<notin> set (script s)" and "\<exists>u\<in>set (users (pending s)). u_id u = uid"
  shows "fst (delete_user uid s) =
           Inr (Transaction 200 ''User and associated tasks delete is successful'') \<and>
         committed (snd (delete_user uid s)) =
           delete_user_where_id uid (delete_task_where_user_id uid (pending s))"
proof -
  from assms(2) have "select_user_where_id uid (pending s) \<noteq> []"
    by (auto simp: select_user_where_id_def filter_empty_conv)
  then obtain u us where "select_user_where_id uid (pending s) = u # us"
    by (cases "select_user_where_id uid (pending s)") auto
  with assms(1) show ?thesis
    by (simp add: delete_user_def delete_user_try_def ok_simps scalar_def)
qed

lemma cascade_removes_lookup:
  assumes "distinct (map t_id ts)" and "t \<in> set ts" and "user_id t = uid"
  shows "filter (\<lambda>x. t_id x = t_id t) (filter (\<lambda>x. user_id x \<noteq> uid) ts) = []"
proof -
  from assms(1) have "inj_on t_id (set ts)" by (simp add: distinct_map)
  with assms(2) have "\<forall>x\<in>set ts. t_id x = t_id t \<longrightarrow> x = t" by (auto dest: inj_onD)
  with assms(3) show ?thesis by (auto simp: filter_empty_conv)
qed

text \<open>
  C4. Claimed: deleting an existing user removes the user's tasks and then the user, so that
  no task of that user remains and looking those tasks up by id answers 404. The code does
  the cascade: after \<open>delete_user\<close> on an existing user (store raising nothing, task ids
  distinct) no committed task has that \<open>user_id\<close> and no committed user has that id. But
  the lookup of each deleted task, in a later request, fails with 500
  \<open>Internal Server Error\<close>, not 404: \<open>task_by_id\<close> turns its own 404 into 500 (see C1).
\<close>

theorem delete_user_then_task_lookup:
  assumes "True \<notin> set (script s)" and "True \<notin> set sc"
    and "\<exists>u\<in>set (users (pending s)). u_id u = uid"
    and "distinct (map t_id (tasks (pending s)))"
  shows "fst (delete_user uid s) =
           Inr (Transaction 200 ''User and associated tasks delete is successful'') \<and>
         (\<forall>t\<in>set (tasks (committed (snd (delete_user uid s)))). user_id t \<noteq> uid) \<and>
         (\<forall>u\<in>set (users (committed (snd (delete_user uid s)))). u_id u \<noteq> uid) \<and>
         (\<forall>t\<in>set (tasks (pending s)). user_id t = uid \<longrightarrow>
            fst (task_by_id (t_id t) (get_async_db (committed (snd (delete_user uid s))) sc)) =
              Inl (HTTPException 500 ''Internal Server Error''))"
proof -
  note ok = delete_user_ok[OF assms(1,3)]
  have look: "fst (task_by_id (t_id t) (get_async_db (committed (snd (delete_user uid s))) sc)) =
              Inl (HTTPException 500 ''Internal Server Error'')"
    if "t \<in> set (tasks (pending s))" "user_id t = uid" for t
  proof -
    have "select_task_where_id (t_id t) (committed (snd (delete_user uid s))) = []"
      using ok cascade_removes_lookup[OF assms(4) that]
      by (simp add: select_task_where_id_def delete_user_where_id_def
          delete_task_where_user_id_def)
    with assms(2) show ?thesis
      by (simp add: task_by_id_def task_by_id_try_def execute_select_ok get_async_db_def
          scalar_def internal_server_error_def)
  qed
  from ok look show ?thesis
    by (simp add: delete_user_where_id_def delete_task_where_user_id_def)
qed

theorem delete_user_then_task_lookup_witness:
  "fst (delete_user 1 (get_async_db alice_store [])) =
     Inr (Transaction 200 ''User and associated tasks delete is successful'') \<and>
   committed (snd (delete_user 1 (get_async_db alice_store []))) = empty_store \<and>
   fst (task_by_id 1
          (get_async_db (committed (snd (delete_user 1 (get_async_db alice_store [])))) [])) =
     Inl (HTTPException 500 ''Internal Server Error'')"
  using delete_user_then_task_lookup [of "get_async_db alice_store []" "[]" 1]
  by (simp add: get_async_db_def alice_store_def alice_def task_T1_def empty_store_def
      delete_user_def delete_user_try_def store_defs select_user_where_id_def
      delete_user_where_id_def delete_task_where_user_id_def)

section \<open>Slugs\<close>

lemma create_user_success:
  assumes "fst (create_user slugify cu s) = Inr p"
  shows "p = Transaction 201 ''Successful'' \<and>
         committed (snd (create_user slugify cu s)) =
           insert_user (cu_username cu) (cu_firstname cu) (cu_lastname cu) (cu_age cu)
             (slugify (cu_firstname cu)) (pending s)"
  using assms
  by (simp add: create_user_def create_user_try_def bind_params_def execute_write_def
      commit_def split: if_splits)

lemma update_user_success:
  assumes "fst (update_user slugify uid uu s) = Inr p"
  shows "p = Transaction 200 ''User update is successful'' \<and>
         select_user_where_id uid (pending s) \<noteq> [] \<and>
         committed (snd (update_user slugify uid uu s)) =
           update_user_where_id uid (uu_firstname uu) (uu_lastname uu) (uu_age uu)
             (slugify (uu_firstname uu)) (pending s)"
  using assms
  by (cases "select_user_where_id uid (pending s)")
    (simp_all add: update_user_def update_user_try_def bind_params_def execute_select_def
      execute_write_def commit_def scalar_def split: if_splits)

text \<open>
  C5. Whenever \<open>create_user\<close> succeeds, the committed users are the users the session saw
  plus one new row whose slug is \<open>slugify\<close> of the supplied firstname. Whenever
  \<open>update_user\<close> succeeds, there is a committed user with the given id, and every
  committed user with that id has the supplied firstname and the slug \<open>slugify\<close> of it.
  \<open>slugify\<close> is the function of the \<open>python-slugify\<close> package, a parameter here; being
  a function, it gives the same slug for the same firstname.
\<close>

theorem stored_slug_is_slugify_firstname:
  "(fst (create_user slugify cu s) = Inr p \<longrightarrow>
      users (committed (snd (create_user slugify cu s))) =
        users (pending s) @
          [\<lparr>u_id = next_rowid (map u_id (users (pending s))), username = cu_username cu,
            firstname = cu_firstname cu, lastname = cu_lastname cu, age = cu_age cu,
            slug = slugify (cu_firstname cu)\<rparr>]) \<and>
   (fst (update_user slugify uid uu s) = Inr p' \<longrightarrow>
      (\<exists>u\<in>set (users (committed (snd (update_user slugify uid uu s)))). u_id u = uid) \<and>
      (\<forall>u\<in>set (users (committed (snd (update_user slugify uid uu s)))).
          u_id u = uid \<longrightarrow>
            firstname u = uu_firstname uu \<and> slug u = slugify (uu_firstname uu)))"
proof (intro conjI impI)
  assume "fst (create_user slugify cu s) = Inr p"
  from create_user_success[OF this]
  show "users (committed (snd (create_user slugify cu s))) =
        users (pending s) @
          [\<lparr>u_id = next_rowid (map u_id (users (pending s))), username = cu_username cu,
            firstname = cu_firstname cu, lastname = cu_lastname cu, age = cu_age cu,
            slug = slugify (cu_firstname cu)\<rparr>]"
    by (simp add: insert_user_def)
next
  assume a: "fst (update_user slugify uid uu s) = Inr p'"
  note ok = update_user_success[OF a]
  let ?g = "\<lambda>u. if u_id u = uid
                 then u\<lparr>firstname := uu_firstname uu, lastname := uu_lastname uu,
                        age := uu_age uu, slug := slugify (uu_firstname uu)\<rparr>
                 else u"
  from ok have eq: "users (committed (snd (update_user slugify uid uu s))) =
      map ?g (users (pending s))"
    by (simp add: update_user_where_id_def)
  from ok obtain u where u: "u \<in> set (users (pending s))" "u_id u = uid"
    by (auto simp: select_user_where_id_def filter_empty_conv)
  from u(1) have "?g u \<in> set (map ?g (users (pending s)))"
    by (simp only: set_map) (rule imageI)
  moreover have "u_id (?g u) = uid"
    using u(2) by simp
  ultimately show
    "\<exists>u\<in>set (users (committed (snd (update_user slugify uid uu s)))). u_id u = uid"
    unfolding eq by (rule rev_bexI)
  show "\<forall>u\<in>set (users (committed (snd (update_user slugify uid uu s)))).
          u_id u = uid \<longrightarrow>
            firstname u = uu_firstname uu \<and> slug u = slugify (uu_firstname uu)"
  proof (intro ballI impI)
    fix v assume vin: "v \<in> set (users (committed (snd (update_user slugify uid uu s))))"
      and vid: "u_id v = uid"
    from vin have "v \<in> ?g ` set (users (pending s))"
      unfolding eq by (simp only: set_map)
    then obtain w where w: "v = ?g w" "w \<in> set (users (pending s))"
      by (rule imageE)
    show "firstname v = uu_firstname uu \<and> slug v = slugify (uu_firstname uu)"
    proof (cases "u_id w = uid")
      case True
      with w show ?thesis by simp
    next
      case False
      with w vid show ?thesis by simp
    qed
  qed
qed


theorem stored_slug_is_slugify_firstname_witness:
  "users (committed (snd (create_user (\<lambda>w. ''slug-of-'' @ w)
      \<lparr>cu_username = ''bob'', cu_firstname = ''Bob'', cu_lastname = ''Roe'', cu_age = 41,
        cu_slug = ''ignored''\<rparr> (get_async_db alice_store [])))) =
     [alice, \<lparr>u_id = 2, username = ''bob'', firstname = ''Bob'', lastname = ''Roe'', age = 41,
       slug = ''slug-of-Bob''\<rparr>] \<and>
   users (committed (snd (update_user (\<lambda>w. ''slug-of-'' @ w) 1
        \<lparr>uu_firstname = ''Alicia'', uu_lastname = ''Doe'', uu_age = 31\<rparr>
        (get_async_db alice_store [])))) =
     [\<lparr>u_id = 1, username = ''alice'', firstname = ''Alicia'', lastname = ''Doe'', age = 31,
       slug = ''slug-of-Alicia''\<rparr>]"
proof -
  have c: "fst (create_user (\<lambda>w. ''slug-of-'' @ w)
      \<lparr>cu_username = ''bob'', cu_firstname = ''Bob'', cu_lastname = ''Roe'', cu_age = 41,
        cu_slug = ''ignored''\<rparr> (get_async_db alice_store [])) =
      Inr (Transaction 201 ''Successful'')"
    by (simp add: get_async_db_def create_user_def create_user_try_def store_defs)
  note th = stored_slug_is_slugify_firstname [of "\<lambda>w. ''slug-of-'' @ w"
      "\<lparr>cu_username = ''bob'', cu_firstname = ''Bob'', cu_lastname = ''Roe'', cu_age = 41,
        cu_slug = ''ignored''\<rparr>" "get_async_db alice_store []" "Transaction 201 ''Successful''"
      1 "\<lparr>uu_firstname = ''Alicia'', uu_lastname = ''Doe'', uu_age = 31\<rparr>"
      "Transaction 200 ''User update is successful''"]
  have "users (committed (snd (create_user (\<lambda>w. ''slug-of-'' @ w)
      \<lparr>cu_username = ''bob'', cu_firstname = ''Bob'', cu_lastname = ''Roe'', cu_age = 41,
        cu_slug = ''ignored''\<rparr> (get_async_db alice_store [])))) =
     [alice, \<lparr>u_id = 2, username = ''bob'', firstname = ''Bob'', lastname = ''Roe'', age = 41,
       slug = ''slug-of-Bob''\<rparr>]"
    using mp[OF conjunct1[OF th] c]
    by (simp add: get_async_db_def alice_store_def alice_def)
  moreover have "users (committed (snd (update_user (\<lambda>w. ''slug-of-'' @ w) 1
        \<lparr>uu_firstname = ''Alicia'', uu_lastname = ''Doe'', uu_age = 31\<rparr>
        (get_async_db alice_store [])))) =
     [\<lparr>u_id = 1, username = ''alice'', firstname = ''Alicia'', lastname = ''Doe'', age = 31,
       slug = ''slug-of-Alicia''\<rparr>]"
    by (simp add: get_async_db_def update_user_def update_user_try_def store_defs
        select_user_where_id_def update_user_where_id_def alice_store_def alice_def)
  ultimately show ?thesis by (rule conjI)
qed

text \<open>
  C10. \<open>CreateUser\<close> requires a \<open>slug\<close> field, and \<open>create_user\<close> never reads it: two
  requests that differ only in the supplied slug give the same response and the same
  session; and when they succeed, the row they commit has the slug \<open>slugify\<close> of the
  firstname, whatever slug was supplied.
\<close>

theorem create_user_ignores_supplied_slug:
  fixes cu :: CreateUser
  shows "create_user slugify (cu\<lparr>cu_slug := a\<rparr>) s = create_user slugify (cu\<lparr>cu_slug := b\<rparr>) s \<and>
         (fst (create_user slugify (cu\<lparr>cu_slug := a\<rparr>) s) = Inr p \<longrightarrow>
            users (committed (snd (create_user slugify (cu\<lparr>cu_slug := a\<rparr>) s))) =
              users (pending s) @
                [\<lparr>u_id = next_rowid (map u_id (users (pending s))), username = cu_username cu,
                  firstname = cu_firstname cu, lastname = cu_lastname cu, age = cu_age cu,
                  slug = slugify (cu_firstname cu)\<rparr>])"
proof (intro conjI impI)
  show "create_user slugify (cu\<lparr>cu_slug := a\<rparr>) s = create_user slugify (cu\<lparr>cu_slug := b\<rparr>) s"
    by (simp add: create_user_def create_user_try_def)
next
  assume "fst (create_user slugify (cu\<lparr>cu_slug := a\<rparr>) s) = Inr p"
  from create_user_success[OF this]
  show "users (committed (snd (create_user slugify (cu\<lparr>cu_slug := a\<rparr>) s))) =
              users (pending s) @
                [\<lparr>u_id = next_rowid (map u_id (users (pending s))), username = cu_username cu,
                  firstname = cu_firstname cu, lastname = cu_lastname cu, age = cu_age cu,
                  slug = slugify (cu_firstname cu)\<rparr>]"
    by (simp add: insert_user_def)
qed

theorem create_user_ignores_supplied_slug_witness:
  "create_user (\<lambda>w. ''slug-of-'' @ w)
      \<lparr>cu_username = ''carol'', cu_firstname = ''Carol'', cu_lastname = ''Poe'', cu_age = 52,
        cu_slug = ''one''\<rparr> (get_async_db alice_store []) =
   create_user (\<lambda>w. ''slug-of-'' @ w)
      \<lparr>cu_username = ''carol'', cu_firstname = ''Carol'', cu_lastname = ''Poe'', cu_age = 52,
        cu_slug = ''two''\<rparr> (get_async_db alice_store []) \<and>
   users (committed (snd (create_user (\<lambda>w. ''slug-of-'' @ w)
      \<lparr>cu_username = ''carol'', cu_firstname = ''Carol'', cu_lastname = ''Poe'', cu_age = 52,
        cu_slug = ''one''\<rparr> (get_async_db alice_store [])))) =
     [alice, \<lparr>u_id = 2, username = ''carol'', firstname = ''Carol'', lastname = ''Poe'',
       age = 52, slug = ''slug-of-Carol''\<rparr>]"
proof -
  let ?cu = "\<lparr>cu_username = ''carol'', cu_firstname = ''Carol'', cu_lastname = ''Poe'',
               cu_age = 52, cu_slug = ''zero''\<rparr>"
  have ok: "fst (create_user (\<lambda>w. ''slug-of-'' @ w) (?cu\<lparr>cu_slug := ''one''\<rparr>)
                 (get_async_db alice_store [])) = Inr (Transaction 201 ''Successful'')"
    by (simp add: get_async_db_def create_user_def create_user_try_def store_defs)
  note th = create_user_ignores_supplied_slug [where slugify = "\<lambda>w. ''slug-of-'' @ w"
      and cu = ?cu and a = "''one''" and s = "get_async_db alice_store []" and b = "''two''"
      and p = "Transaction 201 ''Successful''"]
  from conjunct1[OF th] mp[OF conjunct2[OF th] ok] show ?thesis
    by (simp add: get_async_db_def alice_store_def alice_def)
qed

section \<open>Updating a task\<close>





section \<open>Status codes\<close>

text \<open>
  C8. Claimed: a successful create responds with HTTP status 201. The code puts 201 in the
  \<open>status_code\<close> field of the returned dictionary, and no route declares a
  \<open>status_code\<close>, so the status line of the response is 200: creating alice in the empty
  store succeeds and is answered with status 200.
\<close>

theorem create_answers_200_not_201:
  "fst (serve (\<lambda>w. w) (Post_user_create
          \<lparr>cu_username = ''alice'', cu_firstname = ''Alice'', cu_lastname = ''Doe'', cu_age = 30,
            cu_slug = ''alice''\<rparr>) [] empty_store) = Inr (Transaction 201 ''Successful'') \<and>
   http_status (Post_user_create
          \<lparr>cu_username = ''alice'', cu_firstname = ''Alice'', cu_lastname = ''Doe'', cu_age = 30,
            cu_slug = ''alice''\<rparr>)
     (fst (serve (\<lambda>w. w) (Post_user_create
          \<lparr>cu_username = ''alice'', cu_firstname = ''Alice'', cu_lastname = ''Doe'', cu_age = 30,
            cu_slug = ''alice''\<rparr>) [] empty_store)) = 200 \<and>
   http_status (Post_user_create
          \<lparr>cu_username = ''alice'', cu_firstname = ''Alice'', cu_lastname = ''Doe'', cu_age = 30,
            cu_slug = ''alice''\<rparr>)
     (fst (serve (\<lambda>w. w) (Post_user_create
          \<lparr>cu_username = ''alice'', cu_firstname = ''Alice'', cu_lastname = ''Doe'', cu_age = 30,
            cu_slug = ''alice''\<rparr>) [] empty_store)) \<noteq> 201"
  by (simp add: serve_def get_async_db_def create_user_def create_user_try_def store_defs
      route_status_code_def)


lemma success_payloads:
  "fst (all_users s) = Inr p \<Longrightarrow> \<exists>rows. p = UserList rows"
  "fst (all_tasks s) = Inr p \<Longrightarrow> \<exists>rows. p = TaskList rows"
  "fst (user_by_id uid s) = Inr p \<Longrightarrow> \<exists>u. p = UserDict u"
  "fst (task_by_id tid s) = Inr p \<Longrightarrow> \<exists>t. p = TaskDict t"
  "fst (tasks_by_user_id uid s) = Inr p \<Longrightarrow> \<exists>rows. p = TaskList rows"
  "fst (create_user slugify cu s) = Inr p \<Longrightarrow> p = Transaction 201 ''Successful''"
  "fst (create_task ct s) = Inr p \<Longrightarrow> p = Transaction 201 ''Successful''"
  "fst (update_user slugify uid uu s) = Inr p \<Longrightarrow> p = Transaction 200 ''User update is successful''"
  "fst (update_task tid ut s) = Inr p \<Longrightarrow> p = Transaction 200 ''Task update is successful''"
  "fst (delete_user uid s) = Inr p \<Longrightarrow>
     p = Transaction 200 ''User and associated tasks delete is successful''"
  "fst (delete_task tid s) = Inr p \<Longrightarrow> p = Transaction 200 ''Task delete is successful''"
proof -
  show "fst (all_users s) = Inr p \<Longrightarrow> \<exists>rows. p = UserList rows"
    by (auto simp: all_users_def all_users_try_def call_defs split: if_splits)
  show "fst (all_tasks s) = Inr p \<Longrightarrow> \<exists>rows. p = TaskList rows"
    by (auto simp: all_tasks_def all_tasks_try_def call_defs split: if_splits)
  show "fst (user_by_id uid s) = Inr p \<Longrightarrow> \<exists>u. p = UserDict u"
    by (cases "select_user_where_id uid (pending s)")
      (auto simp: user_by_id_def user_by_id_try_def call_defs split: if_splits)
  show "fst (task_by_id tid s) = Inr p \<Longrightarrow> \<exists>t. p = TaskDict t"
    by (cases "select_task_where_id tid (pending s)")
      (auto simp: task_by_id_def task_by_id_try_def call_defs split: if_splits)
  show "fst (tasks_by_user_id uid s) = Inr p \<Longrightarrow> \<exists>rows. p = TaskList rows"
    by (cases "select_user_where_id uid (pending s)")
      (auto simp: tasks_by_user_id_def tasks_by_user_id_try_def call_defs split: if_splits)
  show "fst (create_user slugify cu s) = Inr p \<Longrightarrow> p = Transaction 201 ''Successful''"
    by (auto simp: create_user_def create_user_try_def call_defs split: if_splits)
  show "fst (create_task ct s) = Inr p \<Longrightarrow> p = Transaction 201 ''Successful''"
    by (cases "select_user_where_id (ct_user_id ct) (pending s)")
      (auto simp: create_task_def create_task_try_def call_defs split: if_splits)
  show "fst (update_user slugify uid uu s) = Inr p \<Longrightarrow>
      p = Transaction 200 ''User update is successful''"
    by (cases "select_user_where_id uid (pending s)")
      (auto simp: update_user_def update_user_try_def call_defs split: if_splits)
  show "fst (update_task tid ut s) = Inr p \<Longrightarrow>
      p = Transaction 200 ''Task update is successful''"
    by (cases "select_task_where_id tid (pending s)")
      (auto simp: update_task_def update_task_try_def call_defs split: if_splits)
  show "fst (delete_user uid s) = Inr p \<Longrightarrow>
      p = Transaction 200 ''User and associated tasks delete is successful''"
    by (cases "select_user_where_id uid (pending s)")
      (auto simp: delete_user_def delete_user_try_def call_defs split: if_splits)
  show "fst (delete_task tid s) = Inr p \<Longrightarrow> p = Transaction 200 ''Task delete is successful''"
    by (cases "select_task_where_id tid (pending s)")
      (auto simp: delete_task_def delete_task_try_def call_defs split: if_splits)
qed


text \<open>
  C8, amended. Every handler that returns is answered with HTTP status 200. The dictionary
  returned by a successful create (POST) has \<open>status_code\<close> 201 and message
  \<open>Successful\<close>; the one returned by a successful update (PUT) or delete (DELETE) has
  \<open>status_code\<close> 200; a successful read (GET) returns rows and no such dictionary.
\<close>

theorem success_status_codes:
  assumes "fst (dispatch slugify req s) = Inr p"
  shows "http_status req (fst (dispatch slugify req s)) = 200 \<and>
         (route_method req = POST \<longrightarrow> p = Transaction 201 ''Successful'') \<and>
         (route_method req = PUT \<or> route_method req = DELETE \<longrightarrow> (\<exists>m. p = Transaction 200 m)) \<and>
         (route_method req = GET \<longrightarrow> (\<forall>c m. p \<noteq> Transaction c m))"
proof -
  have st: "http_status req (fst (dispatch slugify req s)) = 200"
    unfolding assms by (simp add: route_status_code_def)
  show ?thesis
  proof (cases req)
    case Get_user
    with assms st success_payloads(1)[of s p] show ?thesis by auto
  next
    case (Post_user_create cu)
    with assms st success_payloads(6)[of slugify cu s p] show ?thesis by auto
  next
    case (Get_user_id uid)
    with assms st success_payloads(3)[of uid s p] show ?thesis by auto
  next
    case (Put_user_update uid uu)
    with assms st success_payloads(8)[of slugify uid uu s p] show ?thesis by auto
  next
    case (Delete_user_delete uid)
    with assms st success_payloads(10)[of uid s p] show ?thesis by auto
  next
    case (Get_user_id_tasks uid)
    with assms st success_payloads(5)[of uid s p] show ?thesis by auto
  next
    case Get_task
    with assms st success_payloads(2)[of s p] show ?thesis by auto
  next
    case (Post_task_create ct)
    with assms st success_payloads(7)[of ct s p] show ?thesis by auto
  next
    case (Get_task_id tid)
    with assms st success_payloads(4)[of tid s p] show ?thesis by auto
  next
    case (Put_task_update tid ut)
    with assms st success_payloads(9)[of tid ut s p] show ?thesis by auto
  next
    case (Delete_task_delete tid)
    with assms st success_payloads(11)[of tid s p] show ?thesis by auto
  qed
qed

theorem success_status_codes_witness:
  "http_status (Post_task_create
        \<lparr>ct_title = ''T2'', ct_content = ''C2'', ct_priority = 2, ct_user_id = 1\<rparr>)
     (fst (dispatch (\<lambda>w. w) (Post_task_create
        \<lparr>ct_title = ''T2'', ct_content = ''C2'', ct_priority = 2, ct_user_id = 1\<rparr>)
        (get_async_db alice_store []))) = 200 \<and>
   fst (dispatch (\<lambda>w. w) (Post_task_create
        \<lparr>ct_title = ''T2'', ct_content = ''C2'', ct_priority = 2, ct_user_id = 1\<rparr>)
        (get_async_db alice_store [])) = Inr (Transaction 201 ''Successful'')"
proof -
  have ok: "fst (dispatch (\<lambda>w. w) (Post_task_create
        \<lparr>ct_title = ''T2'', ct_content = ''C2'', ct_priority = 2, ct_user_id = 1\<rparr>)
        (get_async_db alice_store [])) = Inr (Transaction 201 ''Successful'')"
    by (simp add: get_async_db_def create_task_def create_task_try_def store_defs
        select_user_where_id_def alice_store_def alice_def)
  from conjunct1[OF success_status_codes[OF ok]] ok show ?thesis by (rule conjI)
qed

section \<open>Internal faults\<close>

lemma all_users_fault:
  assumes "\<not> faulted s" and "faulted (snd (all_users s))"
  shows "fst (all_users s) = Inl (HTTPException 500 ''Internal Server Error'') \<and>
         committed (snd (all_users s)) = committed s \<and> pending (snd (all_users s)) = pending s"
  using assms by (simp add: all_users_def all_users_try_def call_defs split: if_splits)

lemma all_tasks_fault:
  assumes "\<not> faulted s" and "faulted (snd (all_tasks s))"
  shows "fst (all_tasks s) = Inl (HTTPException 500 ''Internal Server Error'') \<and>
         committed (snd (all_tasks s)) = committed s \<and> pending (snd (all_tasks s)) = pending s"
  using assms by (simp add: all_tasks_def all_tasks_try_def call_defs split: if_splits)

lemma user_by_id_fault:
  assumes "\<not> faulted s" and "faulted (snd (user_by_id uid s))"
  shows "fst (user_by_id uid s) = Inl (HTTPException 500 ''Internal Server Error'') \<and>
         committed (snd (user_by_id uid s)) = committed s \<and>
         pending (snd (user_by_id uid s)) = pending s"
  using assms
  by (cases "select_user_where_id uid (pending s)")
    (simp_all add: user_by_id_def user_by_id_try_def call_defs split: if_splits)

lemma task_by_id_fault:
  assumes "\<not> faulted s" and "faulted (snd (task_by_id tid s))"
  shows "fst (task_by_id tid s) = Inl (HTTPException 500 ''Internal Server Error'') \<and>
         committed (snd (task_by_id tid s)) = committed s \<and>
         pending (snd (task_by_id tid s)) = pending s"
  using assms
  by (cases "select_task_where_id tid (pending s)")
    (simp_all add: task_by_id_def task_by_id_try_def call_defs split: if_splits)

lemma tasks_by_user_id_fault:
  assumes "\<not> faulted s" and "faulted (snd (tasks_by_user_id uid s))"
  shows "fst (tasks_by_user_id uid s) = Inl (HTTPException 500 ''Internal Server Error'') \<and>
         committed (snd (tasks_by_user_id uid s)) = committed s \<and>
         pending (snd (tasks_by_user_id uid s)) = pending s"
  using assms
  by (cases "select_user_where_id uid (pending s)")
    (simp_all add: tasks_by_user_id_def tasks_by_user_id_try_def call_defs split: if_splits)

lemma create_user_fault:
  assumes "\<not> faulted s" and "faulted (snd (create_user slugify cu s))"
  shows "fst (create_user slugify cu s) = Inl (HTTPException 500 ''Internal Server Error'') \<and>
         committed (snd (create_user slugify cu s)) = committed s \<and>
         pending (snd (create_user slugify cu s)) = committed s"
  using assms by (simp add: create_user_def create_user_try_def call_defs split: if_splits)

lemma update_user_fault:
  assumes "\<not> faulted s" and "faulted (snd (update_user slugify uid uu s))"
  shows "fst (update_user slugify uid uu s) = Inl (HTTPException 500 ''Internal Server Error'') \<and>
         committed (snd (update_user slugify uid uu s)) = committed s \<and>
         pending (snd (update_user slugify uid uu s)) = committed s"
  using assms
  by (cases "select_user_where_id uid (pending s)")
    (simp_all add: update_user_def update_user_try_def call_defs split: if_splits)

lemma delete_user_fault:
  assumes "\<not> faulted s" and "faulted (snd (delete_user uid s))"
  shows "fst (delete_user uid s) = Inl (HTTPException 500 ''Internal Server Error'') \<and>
         committed (snd (delete_user uid s)) = committed s \<and>
         pending (snd (delete_user uid s)) = committed s"
  using assms
  by (cases "select_user_where_id uid (pending s)")
    (simp_all add: delete_user_def delete_user_try_def call_defs split: if_splits)

lemma create_task_fault:
  assumes "\<not> faulted s" and "faulted (snd (create_task ct s))"
  shows "fst (create_task ct s) = Inl (HTTPException 500 ''Internal Server Error'') \<and>
         committed (snd (create_task ct s)) = committed s \<and>
         pending (snd (create_task ct s)) = committed s"
  using assms
  by (cases "select_user_where_id (ct_user_id ct) (pending s)")
    (simp_all add: create_task_def create_task_try_def call_defs split: if_splits)

lemma update_task_fault:
  assumes "\<not> faulted s" and "faulted (snd (update_task tid ut s))"
  shows "fst (update_task tid ut s) = Inl (HTTPException 500 ''Internal Server Error'') \<and>
         committed (snd (update_task tid ut s)) = committed s \<and>
         pending (snd (update_task tid ut s)) = committed s"
  using assms
  by (cases "select_task_where_id tid (pending s)")
    (simp_all add: update_task_def update_task_try_def call_defs split: if_splits)

lemma delete_task_fault:
  assumes "\<not> faulted s" and "faulted (snd (delete_task tid s))"
  shows "fst (delete_task tid s) = Inl (HTTPException 500 ''Internal Server Error'') \<and>
         committed (snd (delete_task tid s)) = committed s \<and>
         pending (snd (delete_task tid s)) = committed s"
  using assms
  by (cases "select_task_where_id tid (pending s)")
    (simp_all add: delete_task_def delete_task_try_def call_defs split: if_splits)


text \<open>
  C9. In a session in which no store call had raised before, if a store call raises during
  a handler, the handler fails with 500 \<open>Internal Server Error\<close> and the committed store
  is what it was. The handlers that write (POST, PUT, DELETE) call \<open>rollback\<close>, so the
  view of the transaction is the committed store again; the handlers that only read (GET)
  have written nothing and leave the view as it was. So in a session opened by
  \<open>get_async_db\<close>, where the view starts as the committed store, no handler leaves a
  pending write behind. The witness is a \<open>delete_user\<close>
  whose third store call (deleting the user, after the tasks) raises: alice and her task
  are both still there.
\<close>

theorem internal_fault_rolls_back:
  assumes "\<not> faulted s" and "faulted (snd (dispatch slugify req s))"
  shows "fst (dispatch slugify req s) = Inl (HTTPException 500 ''Internal Server Error'') \<and>
         committed (snd (dispatch slugify req s)) = committed s \<and>
         pending (snd (dispatch slugify req s)) =
           (if route_method req = GET then pending s else committed s) \<and>
         (pending s = committed s \<longrightarrow>
            pending (snd (dispatch slugify req s)) = committed (snd (dispatch slugify req s)))"
proof (cases req)
  case Get_user
  with assms all_users_fault[of s] show ?thesis by simp
next
  case (Post_user_create cu)
  with assms create_user_fault[of s slugify cu] show ?thesis by simp
next
  case (Get_user_id uid)
  with assms user_by_id_fault[of s uid] show ?thesis by simp
next
  case (Put_user_update uid uu)
  with assms update_user_fault[of s slugify uid uu] show ?thesis by simp
next
  case (Delete_user_delete uid)
  with assms delete_user_fault[of s uid] show ?thesis by simp
next
  case (Get_user_id_tasks uid)
  with assms tasks_by_user_id_fault[of s uid] show ?thesis by simp
next
  case Get_task
  with assms all_tasks_fault[of s] show ?thesis by simp
next
  case (Post_task_create ct)
  with assms create_task_fault[of s ct] show ?thesis by simp
next
  case (Get_task_id tid)
  with assms task_by_id_fault[of s tid] show ?thesis by simp
next
  case (Put_task_update tid ut)
  with assms update_task_fault[of s tid ut] show ?thesis by simp
next
  case (Delete_task_delete tid)
  with assms delete_task_fault[of s tid] show ?thesis by simp
qed

theorem internal_fault_rolls_back_witness:
  "fst (dispatch (\<lambda>w. w) (Delete_user_delete 1) (get_async_db alice_store [False, False, True])) =
     Inl (HTTPException 500 ''Internal Server Error'') \<and>
   committed (snd (dispatch (\<lambda>w. w) (Delete_user_delete 1)
     (get_async_db alice_store [False, False, True]))) = alice_store \<and>
   pending (snd (dispatch (\<lambda>w. w) (Delete_user_delete 1)
     (get_async_db alice_store [False, False, True]))) = alice_store"
proof -
  have f: "faulted (snd (dispatch (\<lambda>w. w) (Delete_user_delete 1)
     (get_async_db alice_store [False, False, True])))"
    by (simp add: get_async_db_def delete_user_def delete_user_try_def store_defs
        select_user_where_id_def alice_store_def alice_def)
  have n: "\<not> faulted (get_async_db alice_store [False, False, True])"
    by (simp add: get_async_db_def)
  from internal_fault_rolls_back[OF n f] show ?thesis
    by (simp add: get_async_db_def)
qed

section \<open>Unique values\<close>

lemma execute_select_Inr:
  "execute_select q s = (Inr rows, s1) \<Longrightarrow>
     rows = q (pending s) \<and> pending s1 = pending s \<and> committed s1 = committed s"
  by (auto simp: execute_select_def split: if_splits)

lemma scalar_one_or_none_None: "scalar_one_or_none rows = Inr None \<longleftrightarrow> rows = []"
  by (auto simp: scalar_one_or_none_def split: list.splits)

lemma loop_partial:
  assumes "generate_unique_loop col uuid4 base counter s = Some y"
  shows "\<forall>v s'. y = (Inr v, s') \<longrightarrow>
           (\<exists>k\<ge>counter. v = candidate uuid4 base k) \<and>
           select_user_where col v (pending s) = [] \<and>
           pending s' = pending s \<and> committed s' = committed s"
proof (rule generate_unique_loop.raw_induct
    [where P = "\<lambda>col uuid4 base counter s y. \<forall>v s'. y = (Inr v, s') \<longrightarrow>
           (\<exists>k\<ge>counter. v = candidate uuid4 base k) \<and>
           select_user_where col v (pending s) = [] \<and>
           pending s' = pending s \<and> committed s' = committed s", OF _ assms])
  fix loop col uuid4 base counter s y
  assume IH: "\<And>col uuid4 base counter s y. loop col uuid4 base counter s = Some y \<Longrightarrow>
           \<forall>v s'. y = (Inr v, s') \<longrightarrow>
           (\<exists>k\<ge>counter. v = candidate uuid4 base k) \<and>
           select_user_where col v (pending s) = [] \<and>
           pending s' = pending s \<and> committed s' = committed s"
    and step: "(case execute_select (select_user_where col (candidate uuid4 base counter)) s of
        (Inl e, s1) \<Rightarrow> Some (Inl e, s1)
      | (Inr rows, s1) \<Rightarrow>
          (case scalar_one_or_none rows of
             Inl e \<Rightarrow> Some (Inl e, s1)
           | Inr None \<Rightarrow> Some (Inr (candidate uuid4 base counter), s1)
           | Inr (Some u) \<Rightarrow> loop col uuid4 base (counter + 1) s1)) = Some y"
  show "\<forall>v s'. y = (Inr v, s') \<longrightarrow>
           (\<exists>k\<ge>counter. v = candidate uuid4 base k) \<and>
           select_user_where col v (pending s) = [] \<and>
           pending s' = pending s \<and> committed s' = committed s"
  proof (intro allI impI)
    fix v s' assume y: "y = (Inr v, s')"
    obtain r s1 where
      e: "execute_select (select_user_where col (candidate uuid4 base counter)) s = (r, s1)"
      by (cases "execute_select (select_user_where col (candidate uuid4 base counter)) s")
    show "(\<exists>k\<ge>counter. v = candidate uuid4 base k) \<and>
           select_user_where col v (pending s) = [] \<and>
           pending s' = pending s \<and> committed s' = committed s"
    proof (cases r)
      case (Inl e')
      with step e y show ?thesis by simp
    next
      case r: (Inr rows)
      note sel = execute_select_Inr[OF e[unfolded r]]
      show ?thesis
      proof (cases "scalar_one_or_none rows")
        case (Inl e')
        with step e y r show ?thesis by simp
      next
        case (Inr ro)
        show ?thesis
        proof (cases ro)
          case None
          with step e y Inr r have "v = candidate uuid4 base counter" "s' = s1" by simp_all
          moreover from None Inr have "rows = []" by (simp add: scalar_one_or_none_None)
          ultimately show ?thesis using sel by auto
        next
          case (Some u)
          with step e y Inr r
          have "loop col uuid4 base (counter + 1) s1 = Some (Inr v, s')" by simp
          from IH[OF this] have
            "(\<exists>k\<ge>counter + 1. v = candidate uuid4 base k) \<and>
             select_user_where col v (pending s1) = [] \<and>
             pending s' = pending s1 \<and> committed s' = committed s1"
            by blast
          then obtain k where k: "k \<ge> counter + 1" "v = candidate uuid4 base k"
            and rest: "select_user_where col v (pending s1) = []"
              "pending s' = pending s1" "committed s' = committed s1"
            by blast
          from k have "\<exists>k\<ge>counter. v = candidate uuid4 base k"
            by (intro exI[of _ k]) simp
          moreover from rest sel have "select_user_where col v (pending s) = []"
            "pending s' = pending s" "committed s' = committed s"
            by simp_all
          ultimately show ?thesis by blast
        qed
      qed
    qed
  qed
qed

lemma loop_returns:
  assumes "True \<notin> set (script s)"
    and "\<forall>j\<in>{counter..<k}. \<exists>u. select_user_where col (candidate uuid4 base j) (pending s) = [u]"
    and "select_user_where col (candidate uuid4 base k) (pending s) = []"
    and "counter \<le> k"
  shows "\<exists>s'. generate_unique_loop col uuid4 base counter s =
           Some (Inr (candidate uuid4 base k), s')"
  using assms
proof (induction "k - counter" arbitrary: counter s)
  case 0
  then have "counter = k" by simp
  with 0 show ?case
    by (subst generate_unique_loop.simps) (simp add: execute_select_ok scalar_one_or_none_def)
next
  case (Suc n)
  then have lt: "counter < k" by simp
  with Suc.prems(2) obtain u where
    u: "select_user_where col (candidate uuid4 base counter) (pending s) = [u]"
    by force
  have "\<exists>s'. generate_unique_loop col uuid4 base (counter + 1) (after_call s) =
          Some (Inr (candidate uuid4 base k), s')"
  proof (rule Suc.hyps(1))
    show "n = k - (counter + 1)" using Suc.hyps(2) by simp
    show "True \<notin> set (script (after_call s))" using Suc.prems(1) by simp
    show "\<forall>j\<in>{counter + 1..<k}.
            \<exists>u. select_user_where col (candidate uuid4 base j) (pending (after_call s)) = [u]"
      using Suc.prems(2) by simp
    show "select_user_where col (candidate uuid4 base k) (pending (after_call s)) = []"
      using Suc.prems(3) by simp
    show "counter + 1 \<le> k" using lt by simp
  qed
  then show ?case using Suc.prems(1) u
    by (subst generate_unique_loop.simps) (simp add: execute_select_ok scalar_one_or_none_def)
qed

lemma loop_first_free:
  assumes "generate_unique_loop col uuid4 base 1 s = Some (Inr v, s')"
    and "select_user_where col base (pending s) = []"
  shows "v = base"
  using assms
  by (subst (asm) generate_unique_loop.simps)
    (simp add: execute_select_def candidate_def scalar_one_or_none_def split: if_splits)

lemma hex_digit_mem: "hex_digit n \<in> set ''0123456789abcdef''"
proof -
  have "n mod 16 < length ''0123456789abcdef''" by simp
  then show ?thesis unfolding hex_digit_def by (rule nth_mem)
qed

lemma uuid_hex_8:
  "length (take 8 (uuid_hex u)) = 8 \<and> set (take 8 (uuid_hex u)) \<subseteq> set ''0123456789abcdef''"
proof
  show "length (take 8 (uuid_hex u)) = 8" by (simp add: uuid_hex_def)
  have "set (uuid_hex u) \<subseteq> set ''0123456789abcdef''"
    unfolding uuid_hex_def using hex_digit_mem by auto
  then show "set (take 8 (uuid_hex u)) \<subseteq> set ''0123456789abcdef''"
    using set_take_subset by fast
qed

lemma take8_zero: "take 8 (uuid_hex 0) = ''00000000''"
  by (simp add: uuid_hex_def hex_digit_def upt_rec)

lemma generate_unique_loop_spec:
  "(generate_unique_loop col uuid4 base 1 s = Some (Inr v, s') \<longrightarrow>
      select_user_where col v (pending s) = [] \<and>
      pending s' = pending s \<and> committed s' = committed s \<and>
      (select_user_where col base (pending s) = [] \<longrightarrow> v = base) \<and>
      (select_user_where col base (pending s) \<noteq> [] \<longrightarrow>
         (\<exists>j\<ge>2. v = base @ ''-'' @ take 8 (uuid_hex (uuid4 j))))) \<and>
   (True \<notin> set (script s) \<and> 1 \<le> k \<and>
    (\<forall>j\<in>{1..<k}. \<exists>u. select_user_where col (candidate uuid4 base j) (pending s) = [u]) \<and>
    select_user_where col (candidate uuid4 base k) (pending s) = [] \<longrightarrow>
      (\<exists>s''. generate_unique_loop col uuid4 base 1 s =
                Some (Inr (candidate uuid4 base k), s'')))"
proof (intro conjI impI)
  assume r: "generate_unique_loop col uuid4 base 1 s = Some (Inr v, s')"
  from loop_partial[OF r] have
    p: "(\<exists>j\<ge>1. v = candidate uuid4 base j) \<and>
        select_user_where col v (pending s) = [] \<and>
        pending s' = pending s \<and> committed s' = committed s"
    by blast
  from p show "select_user_where col v (pending s) = []" by blast
  from p show "pending s' = pending s" by blast
  from p show "committed s' = committed s" by blast
  show "v = base" if "select_user_where col base (pending s) = []"
    using loop_first_free[OF r that] .
  show "\<exists>j\<ge>2. v = base @ ''-'' @ take 8 (uuid_hex (uuid4 j))"
    if taken: "select_user_where col base (pending s) \<noteq> []"
  proof -
    from p obtain j where j: "j \<ge> 1" "v = candidate uuid4 base j" by blast
    from p have free: "select_user_where col v (pending s) = []" by blast
    have "j \<noteq> 1"
    proof
      assume "j = 1"
      with j have "v = base" by (simp add: candidate_def)
      with free taken show False by simp
    qed
    with j have "j \<ge> 2" "v = base @ ''-'' @ take 8 (uuid_hex (uuid4 j))"
      by (simp_all add: candidate_def)
    then show ?thesis by blast
  qed
next
  assume "True \<notin> set (script s) \<and> 1 \<le> k \<and>
    (\<forall>j\<in>{1..<k}. \<exists>u. select_user_where col (candidate uuid4 base j) (pending s) = [u]) \<and>
    select_user_where col (candidate uuid4 base k) (pending s) = []"
  then show "\<exists>s''. generate_unique_loop col uuid4 base 1 s =
                Some (Inr (candidate uuid4 base k), s'')"
    using loop_returns[of s 1 k col uuid4 base] by blast
qed

text \<open>
  What the loop does as long as no probed value is held by more than one user, for
  \<open>generate_unique_slug\<close> on the slug column and \<open>generate_unique_username\<close> on the
  username column: whenever it returns a value, no user of the store holds it and the store
  is unchanged; the value is the base value if that is free, and otherwise the base value,
  a hyphen and the first 8 hexadecimal digits of one of the UUIDs drawn. It returns the
  \<open>k\<close>-th candidate when no store call raises, that candidate is free and every
  candidate before it is held by exactly one user.
\<close>

lemma generate_unique_value:
  assumes "(gen = generate_unique_slug \<and> col = slug) \<or>
           (gen = generate_unique_username \<and> col = username)"
  shows
  "(gen uuid4 s base = Some (Inr v, s') \<longrightarrow>
      select_user_where col v (pending s) = [] \<and>
      pending s' = pending s \<and> committed s' = committed s \<and>
      (select_user_where col base (pending s) = [] \<longrightarrow> v = base) \<and>
      (select_user_where col base (pending s) \<noteq> [] \<longrightarrow>
         (\<exists>j\<ge>2. v = base @ ''-'' @ take 8 (uuid_hex (uuid4 j))))) \<and>
   (True \<notin> set (script s) \<and> 1 \<le> k \<and>
    (\<forall>j\<in>{1..<k}. \<exists>u. select_user_where col (candidate uuid4 base j) (pending s) = [u]) \<and>
    select_user_where col (candidate uuid4 base k) (pending s) = [] \<longrightarrow>
      (\<exists>s''. gen uuid4 s base = Some (Inr (candidate uuid4 base k), s''))) \<and>
   length (take 8 (uuid_hex w)) = 8 \<and> set (take 8 (uuid_hex w)) \<subseteq> set ''0123456789abcdef''"
proof -
  from assms have g: "gen uuid4 s base = generate_unique_loop col uuid4 base 1 s"
    by (auto simp: generate_unique_slug_def generate_unique_username_def)
  show ?thesis
    unfolding g using generate_unique_loop_spec[of col uuid4 base s v s' k] uuid_hex_8[of w]
    by (intro conjI) blast+
qed

text \<open>
  C6. Claimed: for every store and base value the generation returns a value that is not in
  the store. The code: the probe is \<open>scalar_one_or_none\<close>, which raises when more than one
  row matches. So when the base value is held by two users or more, the generation raises
  \<open>MultipleResultsFound\<close> on its first probe and returns no value. \<open>create_user\<close>
  inserts the username it is given without any check, so two users with one username are a
  store the code produces; the handlers themselves probe with \<open>scalar\<close>, which takes the
  first row.
\<close>

theorem generate_unique_raises_on_duplicates:
  assumes "(gen = generate_unique_slug \<and> col = slug) \<or>
           (gen = generate_unique_username \<and> col = username)"
    and "True \<notin> set (script s)"
    and "select_user_where col base (pending s) = u # u' # us"
  shows "gen uuid4 s base = Some (Inl MultipleResultsFound, after_call s)"
proof -
  from assms(1) have g: "gen uuid4 s base = generate_unique_loop col uuid4 base 1 s"
    by (auto simp: generate_unique_slug_def generate_unique_username_def)
  show ?thesis
    unfolding g using assms(2,3)
    by (subst generate_unique_loop.simps)
      (simp add: execute_select_ok candidate_def scalar_one_or_none_def)
qed

theorem generate_unique_raises_on_duplicates_witness:
  "generate_unique_username (\<lambda>k. 0) (get_async_db duplicate_store []) ''testuser'' =
     Some (Inl MultipleResultsFound, get_async_db duplicate_store [])"
proof -
  have e: "True \<notin> set (script (get_async_db duplicate_store []))"
    by (simp add: get_async_db_def)
  have d: "select_user_where username ''testuser'' (pending (get_async_db duplicate_store [])) =
      \<lparr>u_id = 1, username = ''testuser'', firstname = ''Test'', lastname = ''User'',
        age = 30, slug = ''testuser''\<rparr> #
      \<lparr>u_id = 2, username = ''testuser'', firstname = ''Tess'', lastname = ''User'',
        age = 31, slug = ''tess''\<rparr> # []"
    by (simp add: get_async_db_def select_user_where_def duplicate_store_def)
  have a: "after_call (get_async_db duplicate_store []) = get_async_db duplicate_store []"
    by (rule after_call_empty) (simp add: get_async_db_def)
  from generate_unique_raises_on_duplicates[OF disjI2, OF conjI, OF refl refl e d, of "\<lambda>k. 0"]
  show ?thesis unfolding a .
qed

end
